theory Spec2Isabelle
  imports Main
begin

section \<open>Python values and the host the scripts run on\<close>

text \<open>
  A Python \<open>str\<close> is modelled as a \<open>string\<close> holding its UTF-8 bytes; the three
  non-ASCII symbols the scripts print are written out byte by byte. Only concatenation,
  equality, emptiness and the substring test are used, and these agree on code points
  and on UTF-8 bytes.
\<close>

definition check_mark :: string where
  "check_mark = [CHR 0xE2, CHR 0x9C, CHR 0x93]"

definition white_check_mark :: string where
  "white_check_mark = [CHR 0xE2, CHR 0x9C, CHR 0x85]"

definition cross_mark :: string where
  "cross_mark = [CHR 0xE2, CHR 0x9D, CHR 0x8C]"

text \<open>
  Exceptions, by the classes the handlers of \<open>validate_swift_code\<close> tell apart:
  \<open>subprocess.TimeoutExpired\<close>, any other subclass of \<open>Exception\<close> (with its
  \<open>str(e)\<close>), and the exceptions outside \<open>Exception\<close> (\<open>KeyboardInterrupt\<close>,
  \<open>SystemExit\<close>), which \<open>except Exception\<close> does not catch.
\<close>

datatype py_exn = TimeoutExpired | Exception string | BaseException string

text \<open>\<open>subprocess.CompletedProcess\<close> with \<open>capture_output=True, text=True\<close>.\<close>

record completed_process =
  returncode :: int
  stdout :: string
  stderr :: string

datatype run_outcome = Completed completed_process | Raised py_exn

text \<open>
  The host: what the operating system answers. \<open>tmp_name\<close> is the outcome of
  \<open>tempfile.NamedTemporaryFile(mode='w', suffix='.swift', delete=False)\<close> (the new
  file's name, or the exception it raises); \<open>write_fault\<close> is the exception raised by
  \<open>f.write(code)\<close> or by closing the file at the end of the \<open>with\<close> block, if
  any; \<open>subprocess_run\<close> is what \<open>subprocess.run\<close> does for a command line, a
  timeout and the files on disk: its outcome, and the files on disk when it ends. An
  external process may create, change and remove files, the temporary file among them.
\<close>

record host =
  tmp_name :: "py_exn + string"
  write_fault :: "py_exn option"
  subprocess_run :: "string list \<Rightarrow> nat option \<Rightarrow> (string \<rightharpoonup> string)
                       \<Rightarrow> run_outcome \<times> (string \<rightharpoonup> string)"

text \<open>
  The world a call changes: the files on disk (path to content), the standard streams,
  and the log of the process invocations made so far (command line and timeout).
\<close>

record world =
  files :: "string \<rightharpoonup> string"
  spawned :: "(string list \<times> nat option) list"
  sys_stdin :: string
  sys_stdout :: string
  sys_stderr :: string

section \<open>swift\_validate.py\<close>

text \<open>The dict built at lines 25-29, with keys \<open>valid\<close>, \<open>output\<close>, \<open>errors\<close>.\<close>

record result =
  valid :: bool
  "output" :: string
  errors :: string

text \<open>
  Lines 31-33: the \<open>with\<close> block. It stands before the \<open>try\<close>, so what it raises
  leaves \<open>validate_swift_code\<close>; with \<open>delete=False\<close> a file that was created stays on
  disk when the write fails (its content is then taken to be empty).
\<close>

definition named_temporary_file :: "host \<Rightarrow> string \<Rightarrow> world \<Rightarrow> (py_exn + string) \<times> world" where
  "named_temporary_file h code w =
     (case tmp_name h of
        Inl e \<Rightarrow> (Inl e, w)
      | Inr temp_file \<Rightarrow>
          (case write_fault h of
             Some e \<Rightarrow> (Inl e, w\<lparr>files := (files w)(temp_file \<mapsto> [])\<rparr>)
           | None \<Rightarrow> (Inr temp_file, w\<lparr>files := (files w)(temp_file \<mapsto> code)\<rparr>)))"

definition run_process :: "host \<Rightarrow> string list \<Rightarrow> nat option \<Rightarrow> world \<Rightarrow> run_outcome \<times> world" where
  "run_process h cmd tmo w =
     (case subprocess_run h cmd tmo (files w) of
        (outcome, files_after) \<Rightarrow>
          (outcome, w\<lparr>files := files_after, spawned := spawned w @ [(cmd, tmo)]\<rparr>))"

text \<open>How a block of statements ends.\<close>

datatype completion = Falls_Through | Returns | Raises py_exn

text \<open>Lines 36-53: the body of the \<open>try\<close>, with the dict as it stands when the body ends.\<close>

definition try_body :: "host \<Rightarrow> string \<Rightarrow> bool \<Rightarrow> result \<Rightarrow> world \<Rightarrow> (completion \<times> result) \<times> world" where
  "try_body h temp_file run res w =
     (case run_process h [''swiftc'', ''-typecheck'', temp_file] None w of
        (Raised e, w1) \<Rightarrow> ((Raises e, res), w1)
      | (Completed proc, w1) \<Rightarrow>
          if returncode proc \<noteq> 0 then ((Returns, res\<lparr>errors := stderr proc\<rparr>), w1)
          else
            let res1 = res\<lparr>valid := True,
                           output := check_mark @ '' Syntax and type checking passed''\<rparr>
            in if run then
                 (case run_process h [''swift'', temp_file] (Some 5) w1 of
                    (Raised e, w2) \<Rightarrow> ((Raises e, res1), w2)
                  | (Completed exec_proc, w2) \<Rightarrow>
                      let res2 = res1\<lparr>output := output res1
                                   @ ''\<newline>\<newline>--- Execution Output ---\<newline>'' @ stdout exec_proc\<rparr>;
                          res3 = (if stderr exec_proc \<noteq> []
                                  then res2\<lparr>output := output res2
                                         @ ''\<newline>--- Warnings ---\<newline>'' @ stderr exec_proc\<rparr>
                                  else res2)
                      in ((Falls_Through, res3), w2))
               else ((Falls_Through, res1), w1))"

text \<open>Lines 55-58: the two handlers, tried in order; anything else stays raised.\<close>

fun except_clauses :: "completion \<Rightarrow> result \<Rightarrow> completion \<times> result" where
  "except_clauses (Raises TimeoutExpired) res =
     (Falls_Through, res\<lparr>errors := ''Execution timeout (5s limit)''\<rparr>)"
| "except_clauses (Raises (Exception msg)) res =
     (Falls_Through, res\<lparr>errors := ''Validation error: '' @ msg\<rparr>)"
| "except_clauses c res = (c, res)"

text \<open>
  \<open>os.unlink\<close>: removes an existing file, raises \<open>FileNotFoundError\<close> otherwise. The
  call at lines 59-60 stands in the \<open>finally\<close> clause with no handler around it.
\<close>

definition os_unlink :: "string \<Rightarrow> world \<Rightarrow> py_exn option \<times> world" where
  "os_unlink path w =
     (case files w path of
        None \<Rightarrow>
          (Some (Exception (''[Errno 2] No such file or directory: '' @ [CHR 0x27] @ path @ [CHR 0x27])), w)
      | Some content \<Rightarrow> (None, w\<lparr>files := (files w)(path := None)\<rparr>))"

text \<open>
  Lines 14-62. \<open>Inl\<close> is an exception that leaves the function, \<open>Inr\<close> the dict it
  returns. The \<open>finally\<close> clause runs after the body and the handlers on every path; an
  exception it raises replaces whatever was pending.
\<close>

definition validate_swift_code :: "host \<Rightarrow> string \<Rightarrow> bool \<Rightarrow> world \<Rightarrow> (py_exn + result) \<times> world" where
  "validate_swift_code h code run w =
     (let res = \<lparr>valid = False, output = [], errors = []\<rparr> in
      case named_temporary_file h code w of
        (Inl e, w0) \<Rightarrow> (Inl e, w0)
      | (Inr temp_file, w0) \<Rightarrow>
          (case try_body h temp_file run res w0 of
             ((c, res1), w1) \<Rightarrow>
               (case except_clauses c res1 of
                  (c2, res2) \<Rightarrow>
                    (case os_unlink temp_file w1 of
                       (Some e, w2) \<Rightarrow> (Inl e, w2)
                     | (None, w2) \<Rightarrow>
                         (case c2 of
                            Raises e \<Rightarrow> (Inl e, w2)
                          | Returns \<Rightarrow> (Inr res2, w2)
                          | Falls_Through \<Rightarrow> (Inr res2, w2))))))"

text \<open>Lines 64-88: the f-string, with the view code in its one replacement field.\<close>

definition wrapper :: "string \<Rightarrow> string" where
  \<open>wrapper view_code =
     ''\<newline>import SwiftUI\<newline>\<newline>'' @ view_code
     @ ''\<newline>\<newline>// Minimal validation wrapper\<newline>struct ValidateApp: App {\<newline>''
     @ ''    var body: some Scene {\<newline>''
     @ ''        WindowGroup {\<newline>''
     @ ''            ContentView()\<newline>''
     @ ''        }\<newline>''
     @ ''    }\<newline>''
     @ ''}\<newline>''\<close>

definition validate_swiftui_view :: "host \<Rightarrow> string \<Rightarrow> world \<Rightarrow> (py_exn + result) \<times> world" where
  "validate_swiftui_view h view_code w = validate_swift_code h (wrapper view_code) False w"

text \<open>
  Lines 90-118. The parsed arguments are the input (\<open>argparse\<close> is not modelled); a
  string option is true in a condition when it is present and not empty. \<open>open\<close> raises
  \<open>FileNotFoundError\<close> for a path that is not on disk. The exit status of
  \<open>sys.exit\<close> is the \<open>Inr\<close> value; \<open>Inl\<close> is an exception nothing catches.
\<close>

record args =
  arg_file :: "string option"
  arg_run :: bool
  arg_view :: bool
  arg_code :: "string option"

fun truthy :: "string option \<Rightarrow> bool" where
  "truthy None = False"
| "truthy (Some s) = (s \<noteq> [])"

definition read_code :: "args \<Rightarrow> world \<Rightarrow> (py_exn + string) \<times> world" where
  "read_code a w =
     (if truthy (arg_code a) then (Inr (case arg_code a of Some c \<Rightarrow> c | None \<Rightarrow> []), w)
      else if truthy (arg_file a) then
        (case arg_file a of
           Some path \<Rightarrow>
             (case files w path of
                Some content \<Rightarrow> (Inr content, w)
              | None \<Rightarrow>
                  (Inl (Exception (''[Errno 2] No such file or directory: ''
                                    @ [CHR 0x27] @ path @ [CHR 0x27])), w))
         | None \<Rightarrow> (Inr [], w))
      else (Inr (sys_stdin w),
            w\<lparr>sys_stdout := sys_stdout w @ ''Reading from stdin...\<newline>'', sys_stdin := []\<rparr>))"

text \<open>Lines 99-111: the dict that \<open>main\<close> binds to \<open>result\<close>.\<close>

definition main_result :: "host \<Rightarrow> args \<Rightarrow> world \<Rightarrow> (py_exn + result) \<times> world" where
  "main_result h a w =
     (case read_code a w of
        (Inl e, w1) \<Rightarrow> (Inl e, w1)
      | (Inr code, w1) \<Rightarrow>
          if arg_view a then validate_swiftui_view h code w1
          else validate_swift_code h code (arg_run a) w1)"

definition main :: "host \<Rightarrow> args \<Rightarrow> world \<Rightarrow> (py_exn + int) \<times> world" where
  "main h a w =
     (case main_result h a w of
        (Inl e, w1) \<Rightarrow> (Inl e, w1)
      | (Inr res, w1) \<Rightarrow>
          if valid res
          then (Inr 0, w1\<lparr>sys_stdout := sys_stdout w1 @ white_check_mark @ '' VALID\<newline>''
                                           @ output res @ ''\<newline>''\<rparr>)
          else (Inr 1, w1\<lparr>sys_stderr := sys_stderr w1 @ cross_mark @ '' INVALID\<newline>''
                                           @ errors res @ ''\<newline>''\<rparr>))"

text \<open>
  The invocations of the execution process (\<open>swift <file>\<close>) in the log of a world.
  The type check runs \<open>swiftc\<close>, a different command.
\<close>

definition execution_runs :: "world \<Rightarrow> (string list \<times> nat option) list" where
  "execution_runs w = filter (\<lambda>inv. take 1 (fst inv) = [''swift'']) (spawned w)"

section \<open>scaffold\_project.py\<close>

text \<open>Python's \<open>sub in s\<close> on strings: \<open>sub\<close> occurs in \<open>s\<close> as a contiguous run.\<close>

fun starts_with :: "string \<Rightarrow> string \<Rightarrow> bool" where
  "starts_with [] s = True"
| "starts_with (c # cs) [] = False"
| "starts_with (c # cs) (d # ds) = (c = d \<and> starts_with cs ds)"

fun py_in :: "string \<Rightarrow> string \<Rightarrow> bool" where
  "py_in sub [] = (sub = [])"
| "py_in sub (c # cs) = (starts_with sub (c # cs) \<or> py_in sub cs)"

text \<open>
  Lines 13-29: the table. Each entry is a dict with the keys \<open>name\<close>, \<open>platforms\<close>
  and \<open>deployment_target\<close>; the first is the field \<open>template_name\<close> here.
\<close>

record template =
  template_name :: string
  platforms :: string
  deployment_target :: string

definition TEMPLATES :: "string \<rightharpoonup> template" where
  "TEMPLATES = map_of
     [(''ios'', \<lparr>template_name = ''iOS App (SwiftUI)'', platforms = ''iOS'',
                deployment_target = ''17.0''\<rparr>),
      (''macos'', \<lparr>template_name = ''macOS App (SwiftUI)'', platforms = ''macOS'',
                  deployment_target = ''14.0''\<rparr>),
      (''multiplatform'', \<lparr>template_name = ''Multiplatform App'', platforms = ''iOS, macOS'',
                          deployment_target = ''iOS 17.0, macOS 14.0''\<rparr>)]"

text \<open>\<open>d[k]\<close>, which raises \<open>KeyError\<close> for a missing key, and \<open>d.get(k, dflt)\<close>.\<close>

definition dict_index :: "(string \<rightharpoonup> 'v) \<Rightarrow> string \<Rightarrow> py_exn + 'v" where
  "dict_index d k =
     (case d k of None \<Rightarrow> Inl (Exception ([CHR 0x27] @ k @ [CHR 0x27])) | Some v \<Rightarrow> Inr v)"

definition dict_get :: "(string \<rightharpoonup> 'v) \<Rightarrow> string \<Rightarrow> 'v \<Rightarrow> 'v" where
  "dict_get d k dflt = (case d k of None \<Rightarrow> dflt | Some v \<Rightarrow> v)"

text \<open>Line 57: \<open>TEMPLATES.get(platform, TEMPLATES['ios'])\<close>; the default is computed first.\<close>

definition lookup_template :: "string \<Rightarrow> py_exn + template" where
  "lookup_template platform =
     (case dict_index TEMPLATES ''ios'' of
        Inl e \<Rightarrow> Inl e
      | Inr dflt \<Rightarrow> Inr (dict_get TEMPLATES platform dflt))"

text \<open>Lines 58-74: the f-string of the manifest, line by line.\<close>

definition package_swift :: "string \<Rightarrow> template \<Rightarrow> string" where
  \<open>package_swift name tpl =
     ''// swift-tools-version: 5.9\<newline>''
     @ ''import PackageDescription\<newline>''
     @ ''\<newline>''
     @ ''let package = Package(\<newline>''
     @ ''    name: "'' @ name @ ''",\<newline>''
     @ ''    platforms: [\<newline>''
     @ ''        '' @ (if py_in ''iOS'' (platforms tpl) then ''.iOS(.v17)'' else []) @ ''\<newline>''
     @ ''        '' @ (if py_in ''macOS'' (platforms tpl) then ''.macOS(.v14)'' else []) @ ''\<newline>''
     @ ''    ],\<newline>''
     @ ''    products: [\<newline>''
     @ ''        .executable(name: "'' @ name @ ''", targets: ["'' @ name @ ''"])\<newline>''
     @ ''    ],\<newline>''
     @ ''    targets: [\<newline>''
     @ ''        .executableTarget(name: "'' @ name @ ''")\<newline>''
     @ ''    ]\<newline>''
     @ '')\<newline>''\<close>

text \<open>Lines 83-108: the f-string of the entry point.\<close>

definition main_swift :: "string \<Rightarrow> string" where
  \<open>main_swift name =
     ''import SwiftUI\<newline>''
     @ ''\<newline>''
     @ ''@main\<newline>''
     @ ''struct '' @ name @ ''App: App {\<newline>''
     @ ''    var body: some Scene {\<newline>''
     @ ''        WindowGroup {\<newline>''
     @ ''            ContentView()\<newline>''
     @ ''        }\<newline>''
     @ ''    }\<newline>''
     @ ''}\<newline>''
     @ ''\<newline>''
     @ ''struct ContentView: View {\<newline>''
     @ ''    var body: some View {\<newline>''
     @ ''        VStack {\<newline>''
     @ ''            Text("Welcome to '' @ name @ ''")\<newline>''
     @ ''                .font(.largeTitle)\<newline>''
     @ ''                .padding()\<newline>''
     @ ''        }\<newline>''
     @ ''        .frame(maxWidth: .infinity, maxHeight: .infinity)\<newline>''
     @ ''    }\<newline>''
     @ ''}\<newline>''
     @ ''\<newline>''
     @ ''#Preview {\<newline>''
     @ ''    ContentView()\<newline>''
     @ ''}\<newline>''\<close>

text \<open>Lines 114-120.\<close>

definition gitignore :: string where
  \<open>gitignore =
     ''.DS_Store\<newline>''
     @ ''/.build\<newline>''
     @ ''/Packages\<newline>''
     @ ''xcuserdata/\<newline>''
     @ ''DerivedData/\<newline>''
     @ ''.swiftpm/\<newline>''\<close>

text \<open>
  \<open>pathlib\<close> paths are kept as the expressions that build them: \<open>Path(s)\<close> and
  \<open>p / s\<close>. What the function does to the outside is the list of its effects in order:
  \<open>p.mkdir(parents, exist_ok)\<close>, writing a text file, and \<open>print\<close>. Faults of the file
  system are not modelled. \<open>str_of\<close> is \<open>str\<close> on a path.
\<close>

datatype path = Path string | Join path string

datatype effect = Mkdir path bool bool | Write_Text path string | Print string

text \<open>Lines 48-131.\<close>

definition create_swiftui_app_structure ::
  "(path \<Rightarrow> string) \<Rightarrow> string \<Rightarrow> string \<Rightarrow> string \<Rightarrow> (py_exn + path) \<times> effect list" where
  "create_swiftui_app_structure str_of name platform path =
     (let project_path = Join (Path path) name;
          sources_path = Join project_path ''Sources'';
          made = [Mkdir project_path True True, Mkdir sources_path False True]
      in case lookup_template platform of
           Inl e \<Rightarrow> (Inl e, made)
         | Inr tpl \<Rightarrow>
             (let app_path = Join sources_path name
              in (Inr project_path,
                  made @
                  [Write_Text (Join project_path ''Package.swift'') (package_swift name tpl),
                   Mkdir app_path False True,
                   Write_Text (Join app_path ''main.swift'') (main_swift name),
                   Write_Text (Join project_path ''.gitignore'') gitignore,
                   Print (white_check_mark @ '' Created SwiftUI app at '' @ str_of project_path),
                   Print (''   Platform: '' @ platforms tpl),
                   Print ''\<newline>To build and run:'',
                   Print (''   cd '' @ name),
                   Print ''   swift build'',
                   Print ''   swift run''])))"

section \<open>The view wrapper in the words of the specification\<close>

text \<open>
  The specification describes the text handed to the validator as a fixed import line,
  then the fragment, then a fixed minimal app and scene declaration that refers to a fixed
  content view type. These are the two fixed parts.
\<close>

definition swiftui_import_line :: string where
  "swiftui_import_line = ''\<newline>import SwiftUI\<newline>\<newline>''"

definition minimal_app_declaration :: string where
  "minimal_app_declaration =
     ''\<newline>\<newline>// Minimal validation wrapper\<newline>''
     @ ''struct ValidateApp: App {\<newline>''
     @ ''    var body: some Scene {\<newline>''
     @ ''        WindowGroup {\<newline>''
     @ ''            ContentView()\<newline>''
     @ ''        }\<newline>''
     @ ''    }\<newline>''
     @ ''}\<newline>''"

section \<open>Example hosts, worlds and inputs\<close>

definition empty_world :: world where
  "empty_world = \<lparr>files = Map.empty, spawned = [], sys_stdin = [], sys_stdout = [], sys_stderr = []\<rparr>"

definition example_tmp :: string where
  "example_tmp = ''/tmp/tmpk3v9x2.swift''"

text \<open>
  A host whose type checker and interpreter answer as given, whatever the file holds, and
  leave the files as they are.
\<close>

definition example_host :: "run_outcome \<Rightarrow> run_outcome \<Rightarrow> host" where
  "example_host typecheck execution =
     \<lparr>tmp_name = Inr example_tmp, write_fault = None,
      subprocess_run =
        (\<lambda>cmd tmo fs. (if take 1 cmd = [''swiftc''] then typecheck else execution, fs))\<rparr>"



definition accepted :: run_outcome where
  "accepted = Completed \<lparr>returncode = 0, stdout = [], stderr = []\<rparr>"

definition rejected :: run_outcome where
  "rejected = Completed \<lparr>returncode = 1, stdout = [],
     stderr = ''error: cannot convert value of type Double to specified type Int''\<rparr>"



text \<open>
  The example world after a call that ran the type check only, and one that ran both
  (the temporary file is gone, be it removed by the call or by the executed snippet).
\<close>

definition after_typecheck :: "world \<Rightarrow> world" where
  "after_typecheck w =
     w\<lparr>files := (files w)(example_tmp := None),
       spawned := spawned w @ [([''swiftc'', ''-typecheck'', example_tmp], None)]\<rparr>"

definition after_execution :: "world \<Rightarrow> world" where
  "after_execution w =
     w\<lparr>files := (files w)(example_tmp := None),
       spawned := spawned w @ [([''swiftc'', ''-typecheck'', example_tmp], None),
                              ([''swift'', example_tmp], Some 5)]\<rparr>"

definition example_args :: args where
  "example_args = \<lparr>arg_file = None, arg_run = True, arg_view = False,
                    arg_code = Some ''let x: Int = 0.5''\<rparr>"

text \<open>A plain rendering of paths for the examples.\<close>

primrec posix_str :: "path \<Rightarrow> string" where
  "posix_str (Path s) = s"
| "posix_str (Join p s) = posix_str p @ ''/'' @ s"

section \<open>The paths through validate\_swift\_code\<close>

lemmas validate_defs = validate_swift_code_def named_temporary_file_def try_body_def
  run_process_def os_unlink_def Let_def

text \<open>The two ways the \<open>with\<close> block fails: the exception leaves the function.\<close>

lemma validate_tmp_fault:
  "tmp_name h = Inl e \<Longrightarrow> validate_swift_code h code run w = (Inl e, w)"
  by (simp add: validate_defs)

lemma validate_write_fault:
  "tmp_name h = Inr t \<Longrightarrow> write_fault h = Some e \<Longrightarrow>
   validate_swift_code h code run w = (Inl e, w\<lparr>files := (files w)(t \<mapsto> [])\<rparr>)"
  by (simp add: validate_defs)

text \<open>
  Once the file is written, the call is decided by what the two processes answer and by
  whether the file is still on disk when the \<open>finally\<close> clause runs. One lemma for each
  path gives what the call yields and the world after it.
\<close>

lemma validate_typecheck_rejects:
  assumes "tmp_name h = Inr t" "write_fault h = None"
    and "subprocess_run h [''swiftc'', ''-typecheck'', t] None ((files w)(t \<mapsto> code))
           = (Completed p, fs1)"
    and "returncode p \<noteq> 0"
  shows "validate_swift_code h code run w =
     (case fs1 t of
        None \<Rightarrow>
          (Inl (Exception (''[Errno 2] No such file or directory: '' @ [CHR 0x27] @ t @ [CHR 0x27])),
           w\<lparr>files := fs1, spawned := spawned w @ [([''swiftc'', ''-typecheck'', t], None)]\<rparr>)
      | Some content \<Rightarrow>
          (Inr \<lparr>valid = False, output = [], errors = stderr p\<rparr>,
           w\<lparr>files := fs1(t := None),
             spawned := spawned w @ [([''swiftc'', ''-typecheck'', t], None)]\<rparr>))"
  using assms by (simp add: validate_defs split: option.splits)

lemma validate_typecheck_raises:
  assumes "tmp_name h = Inr t" "write_fault h = None"
    and "subprocess_run h [''swiftc'', ''-typecheck'', t] None ((files w)(t \<mapsto> code))
           = (Raised e, fs1)"
  shows "validate_swift_code h code run w =
     (case fs1 t of
        None \<Rightarrow>
          (Inl (Exception (''[Errno 2] No such file or directory: '' @ [CHR 0x27] @ t @ [CHR 0x27])),
           w\<lparr>files := fs1, spawned := spawned w @ [([''swiftc'', ''-typecheck'', t], None)]\<rparr>)
      | Some content \<Rightarrow>
          ((case e of
              TimeoutExpired \<Rightarrow>
                Inr \<lparr>valid = False, output = [], errors = ''Execution timeout (5s limit)''\<rparr>
            | Exception msg \<Rightarrow>
                Inr \<lparr>valid = False, output = [], errors = ''Validation error: '' @ msg\<rparr>
            | BaseException msg \<Rightarrow> Inl (BaseException msg)),
           w\<lparr>files := fs1(t := None),
             spawned := spawned w @ [([''swiftc'', ''-typecheck'', t], None)]\<rparr>))"
  using assms by (cases e) (simp_all add: validate_defs split: option.splits)

lemma validate_no_run:
  assumes "tmp_name h = Inr t" "write_fault h = None"
    and "subprocess_run h [''swiftc'', ''-typecheck'', t] None ((files w)(t \<mapsto> code))
           = (Completed p, fs1)"
    and "returncode p = 0"
  shows "validate_swift_code h code False w =
     (case fs1 t of
        None \<Rightarrow>
          (Inl (Exception (''[Errno 2] No such file or directory: '' @ [CHR 0x27] @ t @ [CHR 0x27])),
           w\<lparr>files := fs1, spawned := spawned w @ [([''swiftc'', ''-typecheck'', t], None)]\<rparr>)
      | Some content \<Rightarrow>
          (Inr \<lparr>valid = True, output = check_mark @ '' Syntax and type checking passed'',
                errors = []\<rparr>,
           w\<lparr>files := fs1(t := None),
             spawned := spawned w @ [([''swiftc'', ''-typecheck'', t], None)]\<rparr>))"
  using assms by (simp add: validate_defs split: option.splits)


lemma validate_run_raises:
  assumes "tmp_name h = Inr t" "write_fault h = None"
    and "subprocess_run h [''swiftc'', ''-typecheck'', t] None ((files w)(t \<mapsto> code))
           = (Completed p, fs1)"
    and "returncode p = 0"
    and "subprocess_run h [''swift'', t] (Some 5) fs1 = (Raised e, fs2)"
  shows "validate_swift_code h code True w =
     (case fs2 t of
        None \<Rightarrow>
          (Inl (Exception (''[Errno 2] No such file or directory: '' @ [CHR 0x27] @ t @ [CHR 0x27])),
           w\<lparr>files := fs2,
             spawned := spawned w @ [([''swiftc'', ''-typecheck'', t], None),
                                    ([''swift'', t], Some 5)]\<rparr>)
      | Some content \<Rightarrow>
          ((case e of
              TimeoutExpired \<Rightarrow>
                Inr \<lparr>valid = True, output = check_mark @ '' Syntax and type checking passed'',
                     errors = ''Execution timeout (5s limit)''\<rparr>
            | Exception msg \<Rightarrow>
                Inr \<lparr>valid = True, output = check_mark @ '' Syntax and type checking passed'',
                     errors = ''Validation error: '' @ msg\<rparr>
            | BaseException msg \<Rightarrow> Inl (BaseException msg)),
           w\<lparr>files := fs2(t := None),
             spawned := spawned w @ [([''swiftc'', ''-typecheck'', t], None),
                                    ([''swift'', t], Some 5)]\<rparr>))"
  using assms by (cases e) (simp_all add: validate_defs split: option.splits)

text \<open>The five paths are all there are.\<close>

lemma outcome_cases [case_names tc_raises rejects no_run completes run_raises]:
  fixes tc :: "run_outcome \<times> 'f" and ex :: "'f \<Rightarrow> run_outcome \<times> 'f" and run :: bool
  obtains e fs1 where "tc = (Raised e, fs1)"
  | p fs1 where "tc = (Completed p, fs1)" "returncode p \<noteq> 0"
  | p fs1 where "tc = (Completed p, fs1)" "returncode p = 0" "\<not> run"
  | p fs1 q fs2 where "tc = (Completed p, fs1)" "returncode p = 0" "run" "ex fs1 = (Completed q, fs2)"
  | p fs1 e fs2 where "tc = (Completed p, fs1)" "returncode p = 0" "run" "ex fs1 = (Raised e, fs2)"
proof (cases tc)
  case (Pair o1 fs1)
  show ?thesis
  proof (cases o1)
    case (Raised e)
    with Pair show ?thesis using that(1) by blast
  next
    case (Completed p)
    show ?thesis
    proof (cases "returncode p = 0")
      case False
      with Pair Completed show ?thesis using that(2) by blast
    next
      case True
      show ?thesis
      proof (cases run)
        case False
        with Pair Completed True show ?thesis using that(3) by blast
      next
        case run: True
        obtain o2 fs2 where ex: "ex fs1 = (o2, fs2)" by (cases "ex fs1")
        show ?thesis
        proof (cases o2)
          case q: (Completed q)
          with Pair Completed True run ex show ?thesis using that(4) by blast
        next
          case e: (Raised e)
          with Pair Completed True run ex show ?thesis using that(5) by blast
        qed
      qed
    qed
  qed
qed






text \<open>Without \<open>run\<close>, a call starts the type check at most, and never the execution.\<close>

lemma validate_spawned_no_run:
  "spawned (snd (validate_swift_code h code False w)) = spawned w
   \<or> (\<exists>t. spawned (snd (validate_swift_code h code False w))
            = spawned w @ [([''swiftc'', ''-typecheck'', t], None)])"
proof (cases "tmp_name h")
  case (Inl e)
  then show ?thesis by (simp add: validate_tmp_fault)
next
  case (Inr t)
  show ?thesis
  proof (cases "write_fault h")
    case (Some e)
    with Inr show ?thesis by (simp add: validate_write_fault)
  next
    case None
    show ?thesis
    proof (cases rule: outcome_cases
        [where tc = "subprocess_run h [''swiftc'', ''-typecheck'', t] None ((files w)(t \<mapsto> code))"
           and run = False
           and ex = "subprocess_run h [''swift'', t] (Some 5)"])
      case tc_raises
      then show ?thesis by (simp add: validate_typecheck_raises [OF Inr None] split: option.splits)
    next
      case rejects
      then show ?thesis by (simp add: validate_typecheck_rejects [OF Inr None] split: option.splits)
    next
      case no_run
      then show ?thesis by (simp add: validate_no_run [OF Inr None] split: option.splits)
    qed simp_all
  qed
qed

lemma execution_runs_no_run:
  "execution_runs (snd (validate_swift_code h code False w)) = execution_runs w"
  using validate_spawned_no_run [of h code w] by (auto simp: execution_runs_def)

lemma example_host_simps:
  "tmp_name (example_host tc ex) = Inr example_tmp"
  "write_fault (example_host tc ex) = None"
  "subprocess_run (example_host tc ex) [''swiftc'', ''-typecheck'', t] tmo fs = (tc, fs)"
  "subprocess_run (example_host tc ex) [''swift'', t] tmo fs = (ex, fs)"
  by (simp_all add: example_host_def)


section \<open>Facts about the scaffolder\<close>

lemma starts_with_append: "starts_with sub (sub @ post)"
  by (induction sub) auto

lemma py_in_prefix: "py_in sub (sub @ post)"
  by (cases "sub @ post") (use starts_with_append [of sub post] in auto)

lemma py_in_append: "py_in sub (pre @ sub @ post)"
  by (induction pre) (auto simp: py_in_prefix)

lemma lookup_template_absent:
  "TEMPLATES platform = None \<Longrightarrow>
   lookup_template platform =
     Inr \<lparr>template_name = ''iOS App (SwiftUI)'', platforms = ''iOS'', deployment_target = ''17.0''\<rparr>"
  by (simp add: lookup_template_def dict_index_def dict_get_def TEMPLATES_def)

lemma lookup_template_ios:
  "lookup_template ''ios'' =
     Inr \<lparr>template_name = ''iOS App (SwiftUI)'', platforms = ''iOS'', deployment_target = ''17.0''\<rparr>"
  by (simp add: lookup_template_def dict_index_def dict_get_def TEMPLATES_def)

lemma lookup_template_multiplatform:
  "lookup_template ''multiplatform'' =
     Inr \<lparr>template_name = ''Multiplatform App'', platforms = ''iOS, macOS'',
          deployment_target = ''iOS 17.0, macOS 14.0''\<rparr>"
  by (simp add: lookup_template_def dict_index_def dict_get_def TEMPLATES_def)

text \<open>The manifest of a template whose platform string contains \<open>iOS\<close> names it.\<close>

lemma package_swift_names_ios:
  assumes "py_in ''iOS'' (platforms tpl)"
  shows "py_in ''iOS'' (package_swift name tpl)"
proof -
  have "package_swift name tpl =
      (''// swift-tools-version: 5.9\<newline>'' @ ''import PackageDescription\<newline>''
       @ ''\<newline>'' @ ''let package = Package(\<newline>''
       @ ''    name: '' @ [CHR 0x22] @ name @ [CHR 0x22] @ '',\<newline>''
       @ ''    platforms: [\<newline>'' @ ''        .'')
      @ ''iOS''
      @ (''(.v17)\<newline>''
         @ ''        '' @ (if py_in ''macOS'' (platforms tpl) then ''.macOS(.v14)'' else [])
         @ ''\<newline>'' @ ''    ],\<newline>'' @ ''    products: [\<newline>''
         @ ''        .executable(name: '' @ [CHR 0x22] @ name @ [CHR 0x22] @ '', targets: [''
         @ [CHR 0x22] @ name @ [CHR 0x22] @ ''])\<newline>''
         @ ''    ],\<newline>'' @ ''    targets: [\<newline>''
         @ ''        .executableTarget(name: '' @ [CHR 0x22] @ name @ [CHR 0x22] @ '')\<newline>''
         @ ''    ]\<newline>'' @ '')\<newline>'')"
    using assms by (simp add: package_swift_def)
  then show ?thesis by (simp only: py_in_append)
qed

section \<open>Timeout of the execution step\<close>

text \<open>
  C1, as amended. When the type check exits with status zero, \<open>run\<close> is true and the
  execution raises \<open>TimeoutExpired\<close> under its 5 second limit (the temporary file being
  still on disk), \<open>validate_swift_code\<close> returns a result whose \<open>errors\<close> is the literal
  \<open>Execution timeout (5s limit)\<close>, with a capital E. Nothing is said here about the
  \<open>valid\<close> flag of that result.
\<close>

theorem timeout_sets_errors:
  assumes "tmp_name h = Inr t" and "write_fault h = None"
    and "subprocess_run h [''swiftc'', ''-typecheck'', t] None ((files w)(t \<mapsto> code))
           = (Completed p, fs1)"
    and "returncode p = 0"
    and "subprocess_run h [''swift'', t] (Some 5) fs1 = (Raised TimeoutExpired, fs2)"
    and "fs2 t \<noteq> None"
  shows "\<exists>r. fst (validate_swift_code h code True w) = Inr r
           \<and> errors r = ''Execution timeout (5s limit)''"
proof -
  from assms(6) obtain content where "fs2 t = Some content" by auto
  then show ?thesis by (simp add: validate_run_raises [OF assms(1-5)])
qed

theorem timeout_sets_errors_witness:
  "tmp_name (example_host accepted (Raised TimeoutExpired)) = Inr example_tmp
   \<and> write_fault (example_host accepted (Raised TimeoutExpired)) = None
   \<and> subprocess_run (example_host accepted (Raised TimeoutExpired))
        [''swiftc'', ''-typecheck'', example_tmp] None
        ((files empty_world)(example_tmp \<mapsto> ''while true {}''))
       = (accepted, (files empty_world)(example_tmp \<mapsto> ''while true {}''))
   \<and> subprocess_run (example_host accepted (Raised TimeoutExpired))
        [''swift'', example_tmp] (Some 5)
        ((files empty_world)(example_tmp \<mapsto> ''while true {}''))
       = (Raised TimeoutExpired, (files empty_world)(example_tmp \<mapsto> ''while true {}''))
   \<and> ((files empty_world)(example_tmp \<mapsto> ''while true {}'')) example_tmp \<noteq> None
   \<and> (\<exists>r. fst (validate_swift_code (example_host accepted (Raised TimeoutExpired))
                 ''while true {}'' True empty_world) = Inr r
          \<and> errors r = ''Execution timeout (5s limit)'')"
proof -
  let ?h = "example_host accepted (Raised TimeoutExpired)"
  let ?fs = "(files empty_world)(example_tmp \<mapsto> ''while true {}'')"
  have h1: "tmp_name ?h = Inr example_tmp" and h2: "write_fault ?h = None"
    by (simp_all add: example_host_simps)
  have h3: "subprocess_run ?h [''swiftc'', ''-typecheck'', example_tmp] None ?fs
              = (Completed \<lparr>returncode = 0, stdout = [], stderr = []\<rparr>, ?fs)"
    by (simp add: example_host_simps accepted_def)
  have h4: "returncode \<lparr>returncode = 0, stdout = [], stderr = []\<rparr> = 0" by simp
  have h5: "subprocess_run ?h [''swift'', example_tmp] (Some 5) ?fs = (Raised TimeoutExpired, ?fs)"
    by (simp add: example_host_simps)
  have h6: "?fs example_tmp \<noteq> None" by simp
  show ?thesis
    using timeout_sets_errors [OF h1 h2 h3 h4 h5 h6] h1 h2 h3 h5 h6 by (simp add: accepted_def)
qed

text \<open>
  At a host that accepts the type check and times out on execution, the returned result
  has \<open>valid = True\<close> (line 44 sets the flag and the handler at lines 55-56 leaves it),
  and its \<open>errors\<close> differs from the all-lower-case text.
\<close>

theorem timeout_result_counterexample:
  "subprocess_run (example_host accepted (Raised TimeoutExpired))
        [''swiftc'', ''-typecheck'', example_tmp] None
        ((files empty_world)(example_tmp \<mapsto> ''while true {}''))
     = (Completed \<lparr>returncode = 0, stdout = [], stderr = []\<rparr>,
        (files empty_world)(example_tmp \<mapsto> ''while true {}''))
   \<and> subprocess_run (example_host accepted (Raised TimeoutExpired))
        [''swift'', example_tmp] (Some 5)
        ((files empty_world)(example_tmp \<mapsto> ''while true {}''))
     = (Raised TimeoutExpired, (files empty_world)(example_tmp \<mapsto> ''while true {}''))
   \<and> validate_swift_code (example_host accepted (Raised TimeoutExpired))
        ''while true {}'' True empty_world =
       (Inr \<lparr>valid = True, output = check_mark @ '' Syntax and type checking passed'',
             errors = ''Execution timeout (5s limit)''\<rparr>,
        after_execution empty_world)
   \<and> ''Execution timeout (5s limit)'' \<noteq> ''execution timeout (5s limit)''"
proof -
  let ?h = "example_host accepted (Raised TimeoutExpired)"
  let ?fs = "(files empty_world)(example_tmp \<mapsto> ''while true {}'')"
  have h1: "tmp_name ?h = Inr example_tmp" and h2: "write_fault ?h = None"
    by (simp_all add: example_host_simps)
  have h3: "subprocess_run ?h [''swiftc'', ''-typecheck'', example_tmp] None ?fs
              = (Completed \<lparr>returncode = 0, stdout = [], stderr = []\<rparr>, ?fs)"
    by (simp add: example_host_simps accepted_def)
  have h4: "returncode \<lparr>returncode = 0, stdout = [], stderr = []\<rparr> = 0" by simp
  have h5: "subprocess_run ?h [''swift'', example_tmp] (Some 5) ?fs = (Raised TimeoutExpired, ?fs)"
    by (simp add: example_host_simps)
  show ?thesis
    using validate_run_raises [OF h1 h2 h3 h4 h5] h3 h5 by (simp add: after_execution_def)
qed

section \<open>Exceptions\<close>




section \<open>The temporary file\<close>




section \<open>The shape of a result\<close>




section \<open>A rejected type check\<close>

text \<open>
  C5. When the type check exits with a non-zero status (leaving the temporary file in
  place), \<open>validate_swift_code\<close> returns \<open>valid = False\<close> with \<open>errors\<close> equal to the
  standard error the process wrote, and the only process the call starts is the type
  check: the execution is not started, whatever \<open>run\<close> is.
\<close>

theorem rejected_typecheck_reports_stderr:
  assumes "tmp_name h = Inr t" and "write_fault h = None"
    and "subprocess_run h [''swiftc'', ''-typecheck'', t] None ((files w)(t \<mapsto> code))
           = (Completed p, fs1)"
    and "returncode p \<noteq> 0"
    and "fs1 t \<noteq> None"
  shows "fst (validate_swift_code h code run w) = Inr \<lparr>valid = False, output = [], errors = stderr p\<rparr>
       \<and> spawned (snd (validate_swift_code h code run w))
           = spawned w @ [([''swiftc'', ''-typecheck'', t], None)]
       \<and> execution_runs (snd (validate_swift_code h code run w)) = execution_runs w"
proof -
  from assms(5) obtain content where "fs1 t = Some content" by auto
  then show ?thesis
    by (simp add: validate_typecheck_rejects [OF assms(1-4)] execution_runs_def)
qed

theorem rejected_typecheck_reports_stderr_witness:
  "tmp_name (example_host rejected accepted) = Inr example_tmp
   \<and> write_fault (example_host rejected accepted) = None
   \<and> subprocess_run (example_host rejected accepted) [''swiftc'', ''-typecheck'', example_tmp] None
        ((files empty_world)(example_tmp \<mapsto> ''let x: Int = 0.5''))
       = (rejected, (files empty_world)(example_tmp \<mapsto> ''let x: Int = 0.5''))
   \<and> ((files empty_world)(example_tmp \<mapsto> ''let x: Int = 0.5'')) example_tmp \<noteq> None
   \<and> fst (validate_swift_code (example_host rejected accepted) ''let x: Int = 0.5'' True empty_world)
       = Inr \<lparr>valid = False, output = [],
              errors = ''error: cannot convert value of type Double to specified type Int''\<rparr>
   \<and> spawned (snd (validate_swift_code (example_host rejected accepted) ''let x: Int = 0.5'' True
        empty_world)) = [([''swiftc'', ''-typecheck'', example_tmp], None)]
   \<and> execution_runs (snd (validate_swift_code (example_host rejected accepted) ''let x: Int = 0.5''
        True empty_world)) = []"
proof -
  let ?h = "example_host rejected accepted"
  let ?fs = "(files empty_world)(example_tmp \<mapsto> ''let x: Int = 0.5'')"
  let ?p = "\<lparr>returncode = 1, stdout = [],
     stderr = ''error: cannot convert value of type Double to specified type Int''\<rparr>"
  have h1: "tmp_name ?h = Inr example_tmp" and h2: "write_fault ?h = None"
    by (simp_all add: example_host_simps)
  have h3: "subprocess_run ?h [''swiftc'', ''-typecheck'', example_tmp] None ?fs = (Completed ?p, ?fs)"
    by (simp add: example_host_simps rejected_def)
  have h4: "returncode ?p \<noteq> 0" by simp
  have h5: "?fs example_tmp \<noteq> None" by simp
  show ?thesis
    using rejected_typecheck_reports_stderr [OF h1 h2 h3 h4 h5, of True] h1 h2 h3 h5
    by (simp add: rejected_def empty_world_def execution_runs_def)
qed

section \<open>View fragments\<close>

text \<open>
  C6. Validating a view fragment is validating, with \<open>run = False\<close>, the fixed import
  line followed by the fragment as it is followed by the fixed minimal app declaration,
  which refers to \<open>ContentView()\<close>; and the call starts no execution process, whatever the
  fragment and the host are.
\<close>

theorem view_validation_is_wrapped_typecheck:
  "validate_swiftui_view h view_code w =
     validate_swift_code h (swiftui_import_line @ view_code @ minimal_app_declaration) False w
   \<and> py_in ''import SwiftUI'' swiftui_import_line
   \<and> py_in ''ContentView()'' minimal_app_declaration
   \<and> execution_runs (snd (validate_swiftui_view h view_code w)) = execution_runs w"
proof -
  have "wrapper view_code = swiftui_import_line @ view_code @ minimal_app_declaration"
    by (simp add: wrapper_def swiftui_import_line_def minimal_app_declaration_def)
  moreover have "py_in ''import SwiftUI'' swiftui_import_line"
    by (simp add: swiftui_import_line_def)
  moreover have "py_in ''ContentView()'' minimal_app_declaration"
    by (simp add: minimal_app_declaration_def)
  ultimately show ?thesis
    by (simp add: validate_swiftui_view_def execution_runs_no_run)
qed

section \<open>The exit status of the validator\<close>

text \<open>
  C7. When \<open>main\<close> has obtained a result, it exits with status 0 if the result is valid
  and with status 1 if it is not; in the second case it prints the cross mark,
  \<open>INVALID\<close> and the errors of the result to the standard error, and nothing to the
  standard output; in the first it prints to the standard output only.
\<close>

theorem exit_status_follows_valid:
  assumes "main_result h a w = (Inr r, w1)"
  shows "fst (main h a w) = Inr (if valid r then 0 else 1)
       \<and> (\<not> valid r \<longrightarrow>
            sys_stderr (snd (main h a w))
              = sys_stderr w1 @ cross_mark @ '' INVALID\<newline>'' @ errors r @ ''\<newline>''
            \<and> sys_stdout (snd (main h a w)) = sys_stdout w1)
       \<and> (valid r \<longrightarrow>
            sys_stdout (snd (main h a w))
              = sys_stdout w1 @ white_check_mark @ '' VALID\<newline>'' @ output r @ ''\<newline>''
            \<and> sys_stderr (snd (main h a w)) = sys_stderr w1)"
  using assms by (simp add: main_def)

theorem exit_status_follows_valid_witness:
  "main_result (example_host rejected accepted) example_args empty_world =
     (Inr \<lparr>valid = False, output = [],
           errors = ''error: cannot convert value of type Double to specified type Int''\<rparr>,
      after_typecheck empty_world)
   \<and> fst (main (example_host rejected accepted) example_args empty_world) = Inr 1
   \<and> sys_stderr (snd (main (example_host rejected accepted) example_args empty_world))
       = cross_mark @ '' INVALID\<newline>''
         @ ''error: cannot convert value of type Double to specified type Int'' @ ''\<newline>''
   \<and> sys_stdout (snd (main (example_host rejected accepted) example_args empty_world)) = []"
proof -
  let ?h = "example_host rejected accepted"
  let ?fs = "(files empty_world)(example_tmp \<mapsto> ''let x: Int = 0.5'')"
  let ?p = "\<lparr>returncode = 1, stdout = [],
     stderr = ''error: cannot convert value of type Double to specified type Int''\<rparr>"
  have h1: "tmp_name ?h = Inr example_tmp" and h2: "write_fault ?h = None"
    by (simp_all add: example_host_simps)
  have h3: "subprocess_run ?h [''swiftc'', ''-typecheck'', example_tmp] None ?fs = (Completed ?p, ?fs)"
    by (simp add: example_host_simps rejected_def)
  have h4: "returncode ?p \<noteq> 0" by simp
  have m: "main_result ?h example_args empty_world =
     (Inr \<lparr>valid = False, output = [],
           errors = ''error: cannot convert value of type Double to specified type Int''\<rparr>,
      after_typecheck empty_world)"
    using validate_typecheck_rejects [OF h1 h2 h3 h4, of True]
    by (simp add: main_result_def read_code_def example_args_def after_typecheck_def)
  show ?thesis
    using m exit_status_follows_valid [OF m]
    by (simp add: after_typecheck_def empty_world_def)
qed

section \<open>The template of an unknown platform\<close>

text \<open>
  C8. For a platform key that is not in \<open>TEMPLATES\<close>, the lookup gives the \<open>ios\<close>
  template, so that the function does exactly what it does for \<open>ios\<close>: it prints the
  platform string \<open>iOS\<close> of that template, and the manifest it writes names \<open>iOS\<close>.
\<close>

theorem unknown_platform_uses_ios_template:
  assumes "platform \<notin> dom TEMPLATES"
  shows "lookup_template platform = lookup_template ''ios''
       \<and> lookup_template platform =
           Inr \<lparr>template_name = ''iOS App (SwiftUI)'', platforms = ''iOS'',
                deployment_target = ''17.0''\<rparr>
       \<and> create_swiftui_app_structure str_of name platform path =
           create_swiftui_app_structure str_of name ''ios'' path
       \<and> Print ''   Platform: iOS'' \<in> set (snd (create_swiftui_app_structure str_of name platform path))
       \<and> (\<exists>text. Write_Text (Join (Join (Path path) name) ''Package.swift'') text
                    \<in> set (snd (create_swiftui_app_structure str_of name platform path))
                \<and> py_in ''iOS'' text)"
proof -
  let ?ios = "\<lparr>template_name = ''iOS App (SwiftUI)'', platforms = ''iOS'',
                deployment_target = ''17.0''\<rparr>"
  from assms have none: "TEMPLATES platform = None" by (simp add: domIff)
  note l = lookup_template_absent [OF none]
  have same: "lookup_template platform = lookup_template ''ios''"
    by (simp add: l lookup_template_ios)
  have c: "create_swiftui_app_structure str_of name platform path =
           create_swiftui_app_structure str_of name ''ios'' path"
    by (simp add: create_swiftui_app_structure_def same)
  have p: "Print ''   Platform: iOS'' \<in> set (snd (create_swiftui_app_structure str_of name platform path))"
    by (simp add: create_swiftui_app_structure_def l Let_def)
  have w: "Write_Text (Join (Join (Path path) name) ''Package.swift'') (package_swift name ?ios)
           \<in> set (snd (create_swiftui_app_structure str_of name platform path))"
    by (simp add: create_swiftui_app_structure_def l Let_def)
  have i: "py_in ''iOS'' (package_swift name ?ios)"
    by (rule package_swift_names_ios) simp
  show ?thesis using same l c p w i by blast
qed

theorem unknown_platform_uses_ios_template_witness:
  "''unknown-key'' \<notin> dom TEMPLATES
   \<and> lookup_template ''unknown-key'' =
       Inr \<lparr>template_name = ''iOS App (SwiftUI)'', platforms = ''iOS'', deployment_target = ''17.0''\<rparr>
   \<and> create_swiftui_app_structure posix_str ''Demo'' ''unknown-key'' ''.'' =
       create_swiftui_app_structure posix_str ''Demo'' ''ios'' ''.''
   \<and> Print ''   Platform: iOS''
       \<in> set (snd (create_swiftui_app_structure posix_str ''Demo'' ''unknown-key'' ''.''))"
proof -
  have h: "''unknown-key'' \<notin> dom TEMPLATES"
    by (simp add: TEMPLATES_def)
  show ?thesis
    using h unknown_platform_uses_ios_template [OF h, of posix_str "''Demo''" "''.''"] by blast
qed

section \<open>Execution that ends by itself\<close>



section \<open>The manifest of a multiplatform app\<close>

text \<open>
  C10. For the platform \<open>multiplatform\<close> the manifest that is written holds, inside the
  \<open>platforms\<close> list, the entry \<open>.iOS(.v17)\<close> and then the entry \<open>.macOS(.v14)\<close>, with
  a line break and eight spaces between them and no comma.
\<close>

theorem multiplatform_entries_without_comma:
  "\<exists>tpl pre post.
     lookup_template ''multiplatform'' = Inr tpl
     \<and> Write_Text (Join (Join (Path path) name) ''Package.swift'') (package_swift name tpl)
         \<in> set (snd (create_swiftui_app_structure str_of name ''multiplatform'' path))
     \<and> package_swift name tpl =
         pre @ ''    platforms: [\<newline>        .iOS(.v17)\<newline>        .macOS(.v14)\<newline>    ],\<newline>'' @ post"
proof -
  let ?tpl = "\<lparr>template_name = ''Multiplatform App'', platforms = ''iOS, macOS'',
          deployment_target = ''iOS 17.0, macOS 14.0''\<rparr>"
  let ?pre = "''// swift-tools-version: 5.9\<newline>''
     @ ''import PackageDescription\<newline>''
     @ ''\<newline>''
     @ ''let package = Package(\<newline>''
     @ ''    name: '' @ [CHR 0x22] @ name @ [CHR 0x22] @ '',\<newline>''"
  let ?post = "''    products: [\<newline>''
     @ ''        .executable(name: '' @ [CHR 0x22] @ name @ [CHR 0x22] @ '', targets: [''
     @ [CHR 0x22] @ name @ [CHR 0x22] @ ''])\<newline>''
     @ ''    ],\<newline>''
     @ ''    targets: [\<newline>''
     @ ''        .executableTarget(name: '' @ [CHR 0x22] @ name @ [CHR 0x22] @ '')\<newline>''
     @ ''    ]\<newline>''
     @ '')\<newline>''"
  have w: "Write_Text (Join (Join (Path path) name) ''Package.swift'') (package_swift name ?tpl)
         \<in> set (snd (create_swiftui_app_structure str_of name ''multiplatform'' path))"
    by (simp add: create_swiftui_app_structure_def lookup_template_multiplatform Let_def)
  have t: "package_swift name ?tpl =
         ?pre @ ''    platforms: [\<newline>        .iOS(.v17)\<newline>        .macOS(.v14)\<newline>    ],\<newline>'' @ ?post"
    by (simp add: package_swift_def)
  show ?thesis using lookup_template_multiplatform w t by blast
qed

end
